theory Spec2Isabelle
  imports Main "HOL-Library.Sublist"
begin

section \<open>JavaScript values, thrown values and the HTTP interface\<close>

text \<open>
  The values that \<^verbatim>\<open>response.json()\<close> yields and that property reads produce. A number is
  held as the decimal text that \<^verbatim>\<open>String(n)\<close> gives for it, so that no floating point
  arithmetic is needed; an object is the list of its own properties, each key once.
\<close>

datatype jsval =
    JUndefined
  | JNull
  | JBool bool
  | JNum string
  | JStr string
  | JArr "jsval list"
  | JObj "(string \<times> jsval) list"

text \<open>
  What a \<^verbatim>\<open>throw\<close> or a rejected promise carries. The first three are instances of
  \<^verbatim>\<open>Error\<close>, with their message; \<open>NonError\<close> stands for any other thrown value.
\<close>

datatype thrown =
    Error string
  | SyntaxError string
  | TypeError string
  | NonError

fun instanceof_Error :: "thrown \<Rightarrow> bool" where
  "instanceof_Error NonError = False"
| "instanceof_Error _ = True"

fun message :: "thrown \<Rightarrow> string" where
  "message (Error m) = m"
| "message (SyntaxError m) = m"
| "message (TypeError m) = m"
| "message NonError = []"

text \<open>\<^verbatim>\<open>xs.join(sep)\<close> on an array of strings.\<close>

fun join :: "string \<Rightarrow> string list \<Rightarrow> string" where
  "join sep [] = []"
| "join sep [x] = x"
| "join sep (x # y # ys) = x @ sep @ join sep (y # ys)"

text \<open>Truthiness, as \<^verbatim>\<open>||\<close> and \<^verbatim>\<open>!\<close> test it.\<close>

fun truthy :: "jsval \<Rightarrow> bool" where
  "truthy JUndefined = False"
| "truthy JNull = False"
| "truthy (JBool b) = b"
| "truthy (JNum t) = (t \<noteq> ''0'' \<and> t \<noteq> ''NaN'')"
| "truthy (JStr s) = (s \<noteq> [])"
| "truthy (JArr xs) = True"
| "truthy (JObj kvs) = True"

text \<open>The string a template literal \<^verbatim>\<open>`${v}`\<close> inserts for a value.\<close>

fun to_string :: "jsval \<Rightarrow> string" and elems_to_strings :: "jsval list \<Rightarrow> string list" where
  "to_string JUndefined = ''undefined''"
| "to_string JNull = ''null''"
| "to_string (JBool b) = (if b then ''true'' else ''false'')"
| "to_string (JNum t) = t"
| "to_string (JStr s) = s"
| "to_string (JArr xs) = join '','' (elems_to_strings xs)"
| "to_string (JObj kvs) = ''[object Object]''"
| "elems_to_strings [] = []"
| "elems_to_strings (x # xs) =
     (case x of JUndefined \<Rightarrow> [] | JNull \<Rightarrow> [] | _ \<Rightarrow> to_string x) # elems_to_strings xs"

text \<open>
  A property read \<^verbatim>\<open>v.p\<close>, for the property names this program reads (\<^verbatim>\<open>detail\<close>,
  \<^verbatim>\<open>dashboard\<close>, \<^verbatim>\<open>document\<close>, \<^verbatim>\<open>workbookModel\<close>, \<^verbatim>\<open>dashboardId\<close>), none of
  which is inherited from a prototype: reading from \<^verbatim>\<open>null\<close> or \<^verbatim>\<open>undefined\<close> throws a
  TypeError (the message is V8's), an object yields its own property or \<^verbatim>\<open>undefined\<close>,
  every other value yields \<^verbatim>\<open>undefined\<close>.
\<close>

fun get_prop :: "jsval \<Rightarrow> string \<Rightarrow> thrown + jsval" where
  "get_prop JUndefined p =
     Inl (TypeError (''Cannot read properties of undefined (reading '' @ [CHR 0x27] @ p @ [CHR 0x27] @ '')''))"
| "get_prop JNull p =
     Inl (TypeError (''Cannot read properties of null (reading '' @ [CHR 0x27] @ p @ [CHR 0x27] @ '')''))"
| "get_prop (JObj kvs) p = Inr (case map_of kvs p of None \<Rightarrow> JUndefined | Some v \<Rightarrow> v)"
| "get_prop _ p = Inr JUndefined"

subsection \<open>Schemas of \<^verbatim>\<open>omni-api.ts\<close>\<close>

text \<open>
  \<^verbatim>\<open>DashboardImportRequest\<close>. The zod schema is used for its inferred static type only; the
  field \<open>exportVersion\<close> is a string here so that values other than the literal can be
  written down. \<open>uuid_shaped\<close> and \<open>DashboardImportRequest_valid\<close> say what the schema would
  accept.
\<close>

record DashboardImportRequest =
  baseModelId :: string
  dashboard :: jsval
  "identifier" :: "string option"
  folderPath :: "string option"
  document :: jsval
  workbookModel :: jsval
  exportVersion :: string

definition is_hex :: "char \<Rightarrow> bool" where
  "is_hex c = (c \<in> set ''0123456789abcdefABCDEF'')"

definition uuid_shaped :: "string \<Rightarrow> bool" where
  "uuid_shaped s =
     (length s = 36 \<and>
      list_all (\<lambda>i. if i \<in> {8, 13, 18, 23} then s ! i = CHR ''-'' else is_hex (s ! i)) [0..<36])"


text \<open>\<^verbatim>\<open>DashboardExportResponse\<close>: an object whose \<^verbatim>\<open>exportVersion\<close> is a string.\<close>

definition DashboardExportResponse_valid :: "jsval \<Rightarrow> bool" where
  "DashboardExportResponse_valid v =
     (case v of
        JObj kvs \<Rightarrow> (case map_of kvs ''exportVersion'' of Some (JStr s) \<Rightarrow> True | _ \<Rightarrow> False)
      | _ \<Rightarrow> False)"

subsection \<open>The global \<^verbatim>\<open>fetch\<close>\<close>

text \<open>
  The only body this program sends is \<^verbatim>\<open>JSON.stringify(data)\<close> of an import request; the
  body is kept as the value that is serialised.
\<close>

datatype http_body = JSON_stringify DashboardImportRequest

text \<open>
  \<^verbatim>\<open>HeadersInit\<close>, the three forms in which headers can be given: a plain object, whose own
  properties map names to values; a \<^verbatim>\<open>Headers\<close> instance, which keeps its entries inside
  and has no own enumerable property; an array of name and value pairs.
\<close>

datatype HeadersInit =
    HeadersRecord "string \<rightharpoonup> jsval"
  | HeadersInstance "(string \<times> string) list"
  | HeadersPairs "string list list"

text \<open>\<^verbatim>\<open>RequestInit\<close>, with the fields this program sets; an absent field is \<open>None\<close>.\<close>

record RequestInit =
  "method" :: "string option"
  headers :: "HeadersInit option"
  body :: "http_body option"

record fetch_call =
  url :: string
  init :: RequestInit

text \<open>A call with no method is a GET.\<close>

definition effective_method :: "fetch_call \<Rightarrow> string" where
  "effective_method c = (case method (init c) of None \<Rightarrow> ''GET'' | Some m \<Rightarrow> m)"

text \<open>
  The fields of a \<^verbatim>\<open>Response\<close> that the client reads. \<open>json\<close> is the outcome of
  \<^verbatim>\<open>response.json()\<close>: \<open>Inl\<close> when the promise rejects (a \<open>SyntaxError\<close> when the body is not
  valid JSON).
\<close>

record http_response =
  ok :: bool
  statusText :: string
  json :: "thrown + jsval"

text \<open>
  The world outside: what \<^verbatim>\<open>fetch\<close> answers to a call, given the calls made before it.
  \<open>Inl\<close> is a rejected promise (a network failure). The state threaded through the program
  is the list of calls issued so far.
\<close>

type_synonym network = "fetch_call list \<Rightarrow> fetch_call \<Rightarrow> thrown + http_response"

definition global_fetch ::
  "network \<Rightarrow> fetch_call \<Rightarrow> fetch_call list \<Rightarrow> (thrown + http_response) \<times> fetch_call list" where
  "global_fetch net c tr = (net tr c, tr @ [c])"

section \<open>The environment client: class \<^verbatim>\<open>OmniAPI\<close>\<close>

record OmniAPI =
  api_baseUrl :: string
  api_token :: string

definition new_OmniAPI :: "string \<Rightarrow> string \<Rightarrow> OmniAPI" where
  "new_OmniAPI b t = \<lparr>api_baseUrl = b, api_token = t\<rparr>"

text \<open>The property key of an array index: \<^verbatim>\<open>String(i)\<close>, its decimal digits.\<close>

fun index_key :: "nat \<Rightarrow> string" where
  "index_key n =
     (if n < 10 then [''0123456789'' ! n]
      else index_key (n div 10) @ [''0123456789'' ! (n mod 10)])"

declare index_key.simps [simp del]

text \<open>
  \<^verbatim>\<open>{...base, ...options.headers}\<close>: the spread copies the own enumerable properties of its
  operand over the properties already there. Spreading \<^verbatim>\<open>undefined\<close> adds nothing; a plain
  object gives its properties; a \<^verbatim>\<open>Headers\<close> instance has none to give; an array gives
  one property per element, keyed by the index, whose value is the element (here a pair).
\<close>

definition spread_headers :: "(string \<rightharpoonup> jsval) \<Rightarrow> HeadersInit option \<Rightarrow> (string \<rightharpoonup> jsval)" where
  "spread_headers base extra =
     (case extra of
        None \<Rightarrow> base
      | Some (HeadersRecord h) \<Rightarrow> base ++ h
      | Some (HeadersInstance entries) \<Rightarrow> base
      | Some (HeadersPairs pairs) \<Rightarrow>
          base ++ map_of (zip (map index_key [0..<length pairs])
                              (map (\<lambda>pair. JArr (map JStr pair)) pairs)))"

text \<open>The two arguments that \<^verbatim>\<open>OmniAPI.fetch\<close> passes to the global \<^verbatim>\<open>fetch\<close>.\<close>

definition fetch_args :: "OmniAPI \<Rightarrow> string \<Rightarrow> RequestInit \<Rightarrow> fetch_call" where
  "fetch_args api endpoint options =
     \<lparr>url = api_baseUrl api @ endpoint,
      init = options\<lparr>headers :=
        Some (HeadersRecord (spread_headers
               [''Authorization'' \<mapsto> JStr (''Bearer '' @ api_token api),
                ''Content-Type'' \<mapsto> JStr ''application/json'']
               (headers options)))\<rparr>\<rparr>"

text \<open>\<^verbatim>\<open>a || b\<close>.\<close>

definition js_or :: "jsval \<Rightarrow> jsval \<Rightarrow> jsval" where
  "js_or a b = (if truthy a then a else b)"

definition OmniAPI_fetch ::
  "network \<Rightarrow> OmniAPI \<Rightarrow> string \<Rightarrow> RequestInit \<Rightarrow> fetch_call list \<Rightarrow> (thrown + jsval) \<times> fetch_call list" where
  "OmniAPI_fetch net api endpoint options tr =
     (case global_fetch net (fetch_args api endpoint options) tr of
        (Inl e, tr') \<Rightarrow> (Inl e, tr')
      | (Inr response, tr') \<Rightarrow>
          if \<not> ok response then
            (case json response of
               Inl e \<Rightarrow> (Inl e, tr')
             | Inr err_body \<Rightarrow>
                 (case get_prop err_body ''detail'' of
                    Inl e \<Rightarrow> (Inl e, tr')
                  | Inr detail \<Rightarrow>
                      (Inl (Error (''Omni API Error: '' @
                                   to_string (js_or detail (JStr (statusText response))))), tr')))
          else (json response, tr'))"

definition no_options :: RequestInit where
  "no_options = \<lparr>method = None, headers = None, body = None\<rparr>"

definition exportDashboard ::
  "network \<Rightarrow> OmniAPI \<Rightarrow> string \<Rightarrow> fetch_call list \<Rightarrow> (thrown + jsval) \<times> fetch_call list" where
  "exportDashboard net api dashboardId tr =
     OmniAPI_fetch net api (''/api/unstable/documents/'' @ dashboardId @ ''/export'') no_options tr"

definition importDashboard ::
  "network \<Rightarrow> OmniAPI \<Rightarrow> DashboardImportRequest \<Rightarrow> fetch_call list \<Rightarrow> (thrown + jsval) \<times> fetch_call list" where
  "importDashboard net api data tr =
     OmniAPI_fetch net api ''/api/unstable/documents/import''
       \<lparr>method = Some ''POST'', headers = None, body = Some (JSON_stringify data)\<rparr> tr"

section \<open>Configuration: \<^verbatim>\<open>OMNI_CONFIG\<close> and \<^verbatim>\<open>validateOmniConfig\<close>\<close>

text \<open>
  Each setting is \<^verbatim>\<open>process.env.X || ''\<close>: a missing (or empty) environment variable is the
  empty string.
\<close>

record OmniEnvironment =
  baseUrl :: string
  token :: string

record OmniConfig =
  source :: OmniEnvironment
  target :: OmniEnvironment

definition push_if :: "bool \<Rightarrow> string \<Rightarrow> string list \<Rightarrow> string list" where
  "push_if c x xs = (if c then xs @ [x] else xs)"

definition missingVars :: "OmniConfig \<Rightarrow> string list" where
  "missingVars cfg =
     (let m0 = [];
          m1 = push_if (baseUrl (source cfg) = []) ''NEXT_PUBLIC_SOURCE_OMNI_URL'' m0;
          m2 = push_if (token (source cfg) = []) ''SOURCE_OMNI_API_TOKEN'' m1;
          m3 = push_if (baseUrl (target cfg) = []) ''NEXT_PUBLIC_TARGET_OMNI_URL'' m2;
          m4 = push_if (token (target cfg) = []) ''TARGET_OMNI_API_TOKEN'' m3
      in m4)"

definition validateOmniConfig :: "OmniConfig \<Rightarrow> thrown + bool" where
  "validateOmniConfig cfg =
     (if length (missingVars cfg) > 0
      then Inl (Error (''Missing required environment variables: '' @ join '', '' (missingVars cfg)))
      else Inr True)"

section \<open>The orchestrator: component \<^verbatim>\<open>DashboardMigration\<close>\<close>

text \<open>The five \<^verbatim>\<open>useState\<close> cells.\<close>

record component =
  sourceDashboardId :: string
  targetModelId :: string
  status :: string
  error :: string
  configError :: string

definition initial_component :: component where
  "initial_component =
     \<lparr>sourceDashboardId = [], targetModelId = [], status = [], error = [], configError = []\<rparr>"

text \<open>The \<^verbatim>\<open>useEffect\<close> that runs once after mounting.\<close>

definition mount_effect :: "OmniConfig \<Rightarrow> component \<Rightarrow> component" where
  "mount_effect cfg st =
     (case validateOmniConfig cfg of
        Inl err \<Rightarrow>
          st\<lparr>configError := (if instanceof_Error err then message err else ''Configuration error'')\<rparr>
      | Inr _ \<Rightarrow> st)"

definition mounted :: "OmniConfig \<Rightarrow> component" where
  "mounted cfg = mount_effect cfg initial_component"

text \<open>
  The object literal passed to \<^verbatim>\<open>importDashboard\<close>. Its three property reads throw when
  \<^verbatim>\<open>exportData\<close> is \<^verbatim>\<open>null\<close>.
\<close>

definition import_request_of :: "string \<Rightarrow> jsval \<Rightarrow> thrown + DashboardImportRequest" where
  "import_request_of modelId exportData =
     (case get_prop exportData ''dashboard'' of
        Inl e \<Rightarrow> Inl e
      | Inr da \<Rightarrow>
     (case get_prop exportData ''document'' of
        Inl e \<Rightarrow> Inl e
      | Inr doc \<Rightarrow>
     (case get_prop exportData ''workbookModel'' of
        Inl e \<Rightarrow> Inl e
      | Inr wm \<Rightarrow>
          Inr \<lparr>baseModelId = modelId, dashboard = da, identifier = None, folderPath = None,
               document = doc, workbookModel = wm, exportVersion = ''0.1''\<rparr>)))"

text \<open>\<^verbatim>\<open>importResult.dashboard.dashboardId\<close>.\<close>

definition dashboardId_of :: "jsval \<Rightarrow> thrown + jsval" where
  "dashboardId_of importResult =
     (case get_prop importResult ''dashboard'' of
        Inl e \<Rightarrow> Inl e
      | Inr d \<Rightarrow> get_prop d ''dashboardId'')"

text \<open>The \<^verbatim>\<open>catch\<close> block of \<^verbatim>\<open>handleMigration\<close>.\<close>

definition catch_block :: "thrown \<Rightarrow> component \<Rightarrow> component" where
  "catch_block err st =
     st\<lparr>error := (if instanceof_Error err then message err else ''An unknown error occurred''),
        status := ''Migration failed''\<rparr>"

text \<open>
  \<^verbatim>\<open>handleMigration\<close>, run to its end: the component's cells and the calls issued. The two
  identifiers are the ones of the render whose button was clicked.
\<close>

definition handleMigration ::
  "network \<Rightarrow> OmniConfig \<Rightarrow> component \<Rightarrow> fetch_call list \<Rightarrow> component \<times> fetch_call list" where
  "handleMigration net cfg st tr =
     (let st1 = st\<lparr>status := ''Starting migration...''\<rparr>;
          st2 = st1\<lparr>error := []\<rparr>;
          sourceApi = new_OmniAPI (baseUrl (source cfg)) (token (source cfg));
          targetApi = new_OmniAPI (baseUrl (target cfg)) (token (target cfg));
          st3 = st2\<lparr>status := ''Exporting dashboard from source environment...''\<rparr>
      in case exportDashboard net sourceApi (sourceDashboardId st) tr of
           (Inl err, tr1) \<Rightarrow> (catch_block err st3, tr1)
         | (Inr exportData, tr1) \<Rightarrow>
             (let st4 = st3\<lparr>status := ''Importing dashboard to target environment...''\<rparr>
              in case import_request_of (targetModelId st) exportData of
                   Inl err \<Rightarrow> (catch_block err st4, tr1)
                 | Inr data \<Rightarrow>
                     (case importDashboard net targetApi data tr1 of
                        (Inl err, tr2) \<Rightarrow> (catch_block err st4, tr2)
                      | (Inr importResult, tr2) \<Rightarrow>
                          (case dashboardId_of importResult of
                             Inl err \<Rightarrow> (catch_block err st4, tr2)
                           | Inr newId \<Rightarrow>
                               (st4\<lparr>status :=
                                  ''Migration completed successfully! New dashboard ID: '' @
                                  to_string newId\<rparr>, tr2)))))"

subsection \<open>What the user can do\<close>

text \<open>
  With a configuration error the component renders the error panel only: no input and no
  button. Otherwise it renders the two inputs and the button, which is disabled while either
  identifier is empty.
\<close>

datatype ui_event = ChangeSource string | ChangeTarget string | ClickStart

definition renders_form :: "component \<Rightarrow> bool" where
  "renders_form st = (configError st = [])"

definition button_disabled :: "component \<Rightarrow> bool" where
  "button_disabled st = (sourceDashboardId st = [] \<or> targetModelId st = [])"

fun ui_step ::
  "network \<Rightarrow> OmniConfig \<Rightarrow> ui_event \<Rightarrow> component \<times> fetch_call list \<Rightarrow> component \<times> fetch_call list" where
  "ui_step net cfg (ChangeSource s) (st, tr) =
     (if renders_form st then (st\<lparr>sourceDashboardId := s\<rparr>, tr) else (st, tr))"
| "ui_step net cfg (ChangeTarget s) (st, tr) =
     (if renders_form st then (st\<lparr>targetModelId := s\<rparr>, tr) else (st, tr))"
| "ui_step net cfg ClickStart (st, tr) =
     (if renders_form st \<and> \<not> button_disabled st then handleMigration net cfg st tr else (st, tr))"

fun ui_run ::
  "network \<Rightarrow> OmniConfig \<Rightarrow> ui_event list \<Rightarrow> component \<times> fetch_call list \<Rightarrow> component \<times> fetch_call list" where
  "ui_run net cfg [] s = s"
| "ui_run net cfg (ev # evs) s = ui_run net cfg evs (ui_step net cfg ev s)"

section \<open>Concrete environments\<close>

text \<open>Networks, payloads and component states on which the theorems below are instantiated.\<close>

definition net_down :: network where
  "net_down tr c = Inl (TypeError ''Failed to fetch'')"

definition net_serving :: "jsval \<Rightarrow> jsval \<Rightarrow> network" where
  "net_serving bundle result tr c =
     (if method (init c) = None
      then Inr \<lparr>ok = True, statusText = ''OK'', json = Inr bundle\<rparr>
      else Inr \<lparr>ok = True, statusText = ''OK'', json = Inr result\<rparr>)"

definition net_answering :: "http_response \<Rightarrow> network" where
  "net_answering response tr c = Inr response"

definition bundle_v01 :: jsval where
  "bundle_v01 =
     JObj [(''dashboard'', JObj [(''name'', JStr ''Sales'')]),
           (''document'', JObj [(''id'', JStr ''doc_1'')]),
           (''workbookModel'', JArr [JNum ''1'', JNull]),
           (''exportVersion'', JStr ''0.1'')]"


definition demo_result :: jsval where
  "demo_result =
     JObj [(''dashboard'', JObj [(''dashboardId'', JStr ''new_456'')]),
           (''miniUuidMap'', JObj []),
           (''workbook'', JObj [(''id'', JStr ''w1''), (''identifier'', JStr ''wi''),
                               (''name'', JStr ''Sales'')])]"


definition demo_config :: OmniConfig where
  "demo_config =
     \<lparr>source = \<lparr>baseUrl = ''https://src.example'', token = ''s3cr3t''\<rparr>,
      target = \<lparr>baseUrl = ''https://tgt.example'', token = ''t0k3n''\<rparr>\<rparr>"

definition empty_config :: OmniConfig where
  "empty_config = \<lparr>source = \<lparr>baseUrl = [], token = []\<rparr>, target = \<lparr>baseUrl = [], token = []\<rparr>\<rparr>"

definition demo_api :: OmniAPI where
  "demo_api = new_OmniAPI ''https://tgt.example'' ''t0k3n''"

definition demo_component :: component where
  "demo_component =
     initial_component\<lparr>sourceDashboardId := ''dash_123'',
                       targetModelId := ''11111111-1111-1111-1111-111111111111''\<rparr>"

definition component_non_uuid :: component where
  "component_non_uuid =
     initial_component\<lparr>sourceDashboardId := ''dash_123'', targetModelId := ''abc''\<rparr>"

definition bad_request_empty_detail :: http_response where
  "bad_request_empty_detail =
     \<lparr>ok = False, statusText = ''Bad Request'', json = Inr (JObj [(''detail'', JStr [])])\<rparr>"

definition not_found_with_detail :: http_response where
  "not_found_with_detail =
     \<lparr>ok = False, statusText = ''Not Found'',
      json = Inr (JObj [(''detail'', JStr ''Dashboard not found'')])\<rparr>"

definition server_error_no_detail :: http_response where
  "server_error_no_detail =
     \<lparr>ok = False, statusText = ''Internal Server Error'', json = Inr (JObj [(''code'', JNum ''500'')])\<rparr>"

definition bad_gateway_html :: http_response where
  "bad_gateway_html =
     \<lparr>ok = False, statusText = ''Bad Gateway'',
      json = Inl (SyntaxError ''Unexpected token < in JSON at position 0'')\<rparr>"





section \<open>The environment client\<close>

lemma OmniAPI_fetch_calls:
  "snd (OmniAPI_fetch net api endpoint options tr) = tr @ [fetch_args api endpoint options]"
  by (simp add: OmniAPI_fetch_def global_fetch_def split: sum.splits)

lemma exportDashboard_calls:
  "snd (exportDashboard net api i tr) =
     tr @ [fetch_args api (''/api/unstable/documents/'' @ i @ ''/export'') no_options]"
  by (simp add: exportDashboard_def OmniAPI_fetch_calls)

lemma importDashboard_calls:
  "snd (importDashboard net api data tr) =
     tr @ [fetch_args api ''/api/unstable/documents/import''
             \<lparr>method = Some ''POST'', headers = None, body = Some (JSON_stringify data)\<rparr>]"
  by (simp add: importDashboard_def OmniAPI_fetch_calls)

lemma OmniAPI_fetch_not_ok:
  assumes "net tr (fetch_args api endpoint options) = Inr response" and "\<not> ok response"
  shows "fst (OmniAPI_fetch net api endpoint options tr) =
     (case json response of
        Inl e \<Rightarrow> Inl e
      | Inr err_body \<Rightarrow>
          (case get_prop err_body ''detail'' of
             Inl e \<Rightarrow> Inl e
           | Inr detail \<Rightarrow>
               Inl (Error (''Omni API Error: '' @
                           to_string (js_or detail (JStr (statusText response)))))))"
  using assms by (simp add: OmniAPI_fetch_def global_fetch_def split: sum.splits)



text \<open>
  C6, as the code has it. A response with a non-success status whose body parses to a JSON
  value other than \<^verbatim>\<open>null\<close>: when its \<^verbatim>\<open>detail\<close> is a non-empty string \<open>X\<close> the error raised has
  the message \<^verbatim>\<open>Omni API Error: X\<close>; when \<^verbatim>\<open>detail\<close> is absent or the empty string the message
  is \<^verbatim>\<open>Omni API Error: \<close> followed by the HTTP status text.
\<close>

theorem fetch_error_message:
  assumes "net tr (fetch_args api endpoint options) = Inr response"
    and "\<not> ok response"
    and "json response = Inr err_body"
    and "get_prop err_body ''detail'' = Inr d"
  shows "(\<forall>X. d = JStr X \<and> X \<noteq> [] \<longrightarrow>
            fst (OmniAPI_fetch net api endpoint options tr) = Inl (Error (''Omni API Error: '' @ X))) \<and>
         (d = JUndefined \<or> d = JStr [] \<longrightarrow>
            fst (OmniAPI_fetch net api endpoint options tr) =
              Inl (Error (''Omni API Error: '' @ statusText response)))"
proof -
  have "fst (OmniAPI_fetch net api endpoint options tr) =
          Inl (Error (''Omni API Error: '' @ to_string (js_or d (JStr (statusText response)))))"
    using assms by (simp add: OmniAPI_fetch_not_ok)
  then show ?thesis
    by (auto simp: js_or_def)
qed

theorem fetch_error_message_witness:
  "fst (OmniAPI_fetch (net_answering not_found_with_detail) demo_api ''/x'' no_options []) =
     Inl (Error ''Omni API Error: Dashboard not found'') \<and>
   fst (OmniAPI_fetch (net_answering server_error_no_detail) demo_api ''/x'' no_options []) =
     Inl (Error ''Omni API Error: Internal Server Error'')"
proof -
  have a: "net_answering not_found_with_detail [] (fetch_args demo_api ''/x'' no_options) =
             Inr not_found_with_detail"
    and b: "net_answering server_error_no_detail [] (fetch_args demo_api ''/x'' no_options) =
             Inr server_error_no_detail"
    by (simp_all add: net_answering_def)
  have "\<not> ok not_found_with_detail"
    and "json not_found_with_detail = Inr (JObj [(''detail'', JStr ''Dashboard not found'')])"
    and "get_prop (JObj [(''detail'', JStr ''Dashboard not found'')]) ''detail'' =
           Inr (JStr ''Dashboard not found'')"
    by (simp_all add: not_found_with_detail_def)
  from fetch_error_message
         [where net = "net_answering not_found_with_detail" and tr = "[]" and api = demo_api
            and endpoint = "''/x''" and options = no_options, OF a this]
  have 1: "fst (OmniAPI_fetch (net_answering not_found_with_detail) demo_api ''/x'' no_options []) =
             Inl (Error ''Omni API Error: Dashboard not found'')"
    by simp
  have "\<not> ok server_error_no_detail"
    and "json server_error_no_detail = Inr (JObj [(''code'', JNum ''500'')])"
    and "get_prop (JObj [(''code'', JNum ''500'')]) ''detail'' = Inr JUndefined"
    by (simp_all add: server_error_no_detail_def)
  from fetch_error_message
         [where net = "net_answering server_error_no_detail" and tr = "[]" and api = demo_api
            and endpoint = "''/x''" and options = no_options, OF b this]
  have 2: "fst (OmniAPI_fetch (net_answering server_error_no_detail) demo_api ''/x'' no_options []) =
             Inl (Error ''Omni API Error: Internal Server Error'')"
    by (simp add: server_error_no_detail_def)
  from 1 2 show ?thesis ..
qed

text \<open>
  C6 as stated fails when \<open>X\<close> is the empty string: for the body \<^verbatim>\<open>{"detail": ""}\<close> under
  status text \<^verbatim>\<open>Bad Request\<close> the message is \<^verbatim>\<open>Omni API Error: Bad Request\<close>, not
  \<^verbatim>\<open>Omni API Error: \<close>.
\<close>

theorem fetch_empty_detail_counterexample:
  "\<not> ok bad_request_empty_detail \<and>
   json bad_request_empty_detail = Inr (JObj [(''detail'', JStr [])]) \<and>
   fst (OmniAPI_fetch (net_answering bad_request_empty_detail) demo_api ''/x'' no_options []) =
     Inl (Error ''Omni API Error: Bad Request'') \<and>
   fst (OmniAPI_fetch (net_answering bad_request_empty_detail) demo_api ''/x'' no_options []) \<noteq>
     Inl (Error (''Omni API Error: '' @ []))"
  by (simp add: net_answering_def bad_request_empty_detail_def demo_api_def
      OmniAPI_fetch_def global_fetch_def fetch_args_def spread_headers_def
      no_options_def new_OmniAPI_def exportDashboard_def importDashboard_def js_or_def)

text \<open>
  C7. A response with a non-success status whose body is not valid JSON, so that
  \<^verbatim>\<open>response.json()\<close> rejects with a \<open>SyntaxError\<close>: the request operation issues its one call
  and fails with that very \<open>SyntaxError\<close>, an instance of \<^verbatim>\<open>Error\<close>, handed to the caller as
  the result of the operation.
\<close>

theorem fetch_non_json_error_body_propagates:
  assumes "net tr (fetch_args api endpoint options) = Inr response"
    and "\<not> ok response"
    and "json response = Inl (SyntaxError m)"
  shows "OmniAPI_fetch net api endpoint options tr =
           (Inl (SyntaxError m), tr @ [fetch_args api endpoint options]) \<and>
         instanceof_Error (SyntaxError m)"
  using assms by (simp add: OmniAPI_fetch_def global_fetch_def)

theorem fetch_non_json_error_body_witness:
  "fst (OmniAPI_fetch (net_answering bad_gateway_html) demo_api ''/x'' no_options []) =
     Inl (SyntaxError ''Unexpected token < in JSON at position 0'')"
proof -
  have "net_answering bad_gateway_html [] (fetch_args demo_api ''/x'' no_options) = Inr bad_gateway_html"
    and "\<not> ok bad_gateway_html"
    and "json bad_gateway_html = Inl (SyntaxError ''Unexpected token < in JSON at position 0'')"
    by (simp_all add: net_answering_def bad_gateway_html_def)
  from fetch_non_json_error_body_propagates
         [where net = "net_answering bad_gateway_html" and tr = "[]" and api = demo_api
            and endpoint = "''/x''" and options = no_options, OF this]
  show ?thesis
    by simp
qed



section \<open>The orchestrator\<close>

lemma handleMigration_calls:
  "snd (handleMigration net cfg st tr) =
     (case exportDashboard net (new_OmniAPI (baseUrl (source cfg)) (token (source cfg)))
             (sourceDashboardId st) tr of
        (Inl e, tr1) \<Rightarrow> tr1
      | (Inr exportData, tr1) \<Rightarrow>
          (case import_request_of (targetModelId st) exportData of
             Inl e \<Rightarrow> tr1
           | Inr data \<Rightarrow>
               snd (importDashboard net (new_OmniAPI (baseUrl (target cfg)) (token (target cfg)))
                      data tr1)))"
  by (simp add: handleMigration_def Let_def split: prod.splits sum.splits)

lemma export_call_shape:
  "effective_method (fetch_args (new_OmniAPI b t) endpoint no_options) = ''GET'' \<and>
   url (fetch_args (new_OmniAPI b t) endpoint no_options) = b @ endpoint \<and>
   body (init (fetch_args (new_OmniAPI b t) endpoint no_options)) = None"
  by (simp add: effective_method_def fetch_args_def no_options_def new_OmniAPI_def)

lemma import_call_shape:
  "effective_method (fetch_args (new_OmniAPI b t) endpoint
      \<lparr>method = Some ''POST'', headers = None, body = Some (JSON_stringify data)\<rparr>) = ''POST'' \<and>
   url (fetch_args (new_OmniAPI b t) endpoint
      \<lparr>method = Some ''POST'', headers = None, body = Some (JSON_stringify data)\<rparr>) =
     b @ endpoint \<and>
   body (init (fetch_args (new_OmniAPI b t) endpoint
      \<lparr>method = Some ''POST'', headers = None, body = Some (JSON_stringify data)\<rparr>)) =
     Some (JSON_stringify data)"
  by (simp add: effective_method_def fetch_args_def new_OmniAPI_def)


lemma import_request_of_valid:
  assumes "DashboardExportResponse_valid b"
  shows "\<exists>r. import_request_of m b = Inr r \<and> baseModelId r = m \<and>
             get_prop b ''dashboard'' = Inr (dashboard r) \<and>
             get_prop b ''document'' = Inr (document r) \<and>
             get_prop b ''workbookModel'' = Inr (workbookModel r)"
proof (cases b)
  case (JObj kvs)
  then show ?thesis by (simp add: import_request_of_def)
qed (use assms in \<open>simp_all add: DashboardExportResponse_valid_def\<close>)

lemma handleMigration_calls_shape:
  "snd (handleMigration net cfg st tr) =
     tr @ [fetch_args (new_OmniAPI (baseUrl (source cfg)) (token (source cfg)))
             (''/api/unstable/documents/'' @ sourceDashboardId st @ ''/export'') no_options] \<or>
   (\<exists>b data.
      fst (exportDashboard net (new_OmniAPI (baseUrl (source cfg)) (token (source cfg)))
             (sourceDashboardId st) tr) = Inr b \<and>
      import_request_of (targetModelId st) b = Inr data \<and>
      snd (handleMigration net cfg st tr) =
        tr @ [fetch_args (new_OmniAPI (baseUrl (source cfg)) (token (source cfg)))
                (''/api/unstable/documents/'' @ sourceDashboardId st @ ''/export'') no_options,
              fetch_args (new_OmniAPI (baseUrl (target cfg)) (token (target cfg)))
                ''/api/unstable/documents/import''
                \<lparr>method = Some ''POST'', headers = None, body = Some (JSON_stringify data)\<rparr>])"
proof -
  let ?src = "new_OmniAPI (baseUrl (source cfg)) (token (source cfg))"
  obtain r tr1 where e: "exportDashboard net ?src (sourceDashboardId st) tr = (r, tr1)"
    by (cases "exportDashboard net ?src (sourceDashboardId st) tr")
  have tr1: "tr1 = tr @ [fetch_args ?src (''/api/unstable/documents/'' @ sourceDashboardId st @ ''/export'') no_options]"
    using exportDashboard_calls [of net ?src "sourceDashboardId st" tr] e by simp
  show ?thesis
  proof (cases r)
    case (Inl err)
    with e tr1 show ?thesis by (simp add: handleMigration_calls)
  next
    case (Inr b)
    show ?thesis
    proof (cases "import_request_of (targetModelId st) b")
      case (Inl err)
      with e tr1 Inr show ?thesis by (simp add: handleMigration_calls)
    next
      case data: (Inr data)
      with e tr1 Inr show ?thesis
        by (simp add: handleMigration_calls importDashboard_calls)
    qed
  qed
qed



text \<open>
  C3. When the export call of a migration run returns a valid export bundle \<open>B\<close>, the run
  issues the GET and then one POST whose body is an import request with \<open>baseModelId\<close> the
  target model id and with \<open>dashboard\<close>, \<open>document\<close> and \<open>workbookModel\<close> equal to what
  reading these properties from \<open>B\<close> gives. This holds for every target model id.
\<close>

theorem import_request_passes_payload_through:
  assumes "fst (exportDashboard net (new_OmniAPI (baseUrl (source cfg)) (token (source cfg)))
                  (sourceDashboardId st) tr) = Inr B"
    and "DashboardExportResponse_valid B"
  shows "\<exists>g p r. snd (handleMigration net cfg st tr) = tr @ [g, p] \<and>
                  body (init p) = Some (JSON_stringify r) \<and>
                  baseModelId r = targetModelId st \<and>
                  get_prop B ''dashboard'' = Inr (dashboard r) \<and>
                  get_prop B ''document'' = Inr (document r) \<and>
                  get_prop B ''workbookModel'' = Inr (workbookModel r)"
proof -
  let ?src = "new_OmniAPI (baseUrl (source cfg)) (token (source cfg))"
  let ?tgt = "new_OmniAPI (baseUrl (target cfg)) (token (target cfg))"
  let ?g = "fetch_args ?src (''/api/unstable/documents/'' @ sourceDashboardId st @ ''/export'') no_options"
  from import_request_of_valid [OF assms(2), of "targetModelId st"]
  obtain r where r: "import_request_of (targetModelId st) B = Inr r"
    and fields: "baseModelId r = targetModelId st"
      "get_prop B ''dashboard'' = Inr (dashboard r)"
      "get_prop B ''document'' = Inr (document r)"
      "get_prop B ''workbookModel'' = Inr (workbookModel r)"
    by blast
  let ?p = "fetch_args ?tgt ''/api/unstable/documents/import''
              \<lparr>method = Some ''POST'', headers = None, body = Some (JSON_stringify r)\<rparr>"
  have "exportDashboard net ?src (sourceDashboardId st) tr = (Inr B, tr @ [?g])"
    using assms(1) exportDashboard_calls [of net ?src "sourceDashboardId st" tr]
    by (simp add: prod_eq_iff)
  then have "snd (handleMigration net cfg st tr) = tr @ [?g, ?p]"
    using r by (simp add: handleMigration_calls importDashboard_calls)
  moreover have "body (init ?p) = Some (JSON_stringify r)"
    by (simp add: import_call_shape)
  ultimately show ?thesis
    using fields by blast
qed

theorem import_request_passes_payload_through_witness:
  "\<exists>g p r. snd (handleMigration (net_serving bundle_v01 demo_result) demo_config demo_component []) =
             [] @ [g, p] \<and>
           body (init p) = Some (JSON_stringify r) \<and>
           baseModelId r = ''11111111-1111-1111-1111-111111111111'' \<and>
           dashboard r = JObj [(''name'', JStr ''Sales'')] \<and>
           document r = JObj [(''id'', JStr ''doc_1'')] \<and>
           workbookModel r = JArr [JNum ''1'', JNull]"
proof -
  have "fst (exportDashboard (net_serving bundle_v01 demo_result)
               (new_OmniAPI (baseUrl (source demo_config)) (token (source demo_config)))
               (sourceDashboardId demo_component) []) = Inr bundle_v01"
    by (simp add: net_serving_def
      OmniAPI_fetch_def global_fetch_def fetch_args_def spread_headers_def
      no_options_def new_OmniAPI_def exportDashboard_def importDashboard_def js_or_def)
  moreover have "DashboardExportResponse_valid bundle_v01"
    by (simp add: DashboardExportResponse_valid_def bundle_v01_def)
  ultimately obtain g p r
    where "snd (handleMigration (net_serving bundle_v01 demo_result) demo_config demo_component []) =
             [] @ [g, p]"
      and "body (init p) = Some (JSON_stringify r)"
      and "baseModelId r = targetModelId demo_component"
      and "get_prop bundle_v01 ''dashboard'' = Inr (dashboard r)"
      and "get_prop bundle_v01 ''document'' = Inr (document r)"
      and "get_prop bundle_v01 ''workbookModel'' = Inr (workbookModel r)"
    using import_request_passes_payload_through
            [of "net_serving bundle_v01 demo_result" demo_config demo_component "[]" bundle_v01]
    by blast
  then show ?thesis
    by (intro exI [of _ g] exI [of _ p] exI [of _ r])
       (simp add: bundle_v01_def demo_component_def)
qed

lemma handleMigration_export_throws:
  assumes "fst (exportDashboard net (new_OmniAPI (baseUrl (source cfg)) (token (source cfg)))
                  (sourceDashboardId st) tr) = Inl e"
  shows "handleMigration net cfg st tr =
           (st\<lparr>status := ''Migration failed'',
               error := (if instanceof_Error e then message e else ''An unknown error occurred'')\<rparr>,
            snd (exportDashboard net (new_OmniAPI (baseUrl (source cfg)) (token (source cfg)))
                   (sourceDashboardId st) tr))"
proof -
  let ?src = "new_OmniAPI (baseUrl (source cfg)) (token (source cfg))"
  obtain r tr1 where e: "exportDashboard net ?src (sourceDashboardId st) tr = (r, tr1)"
    by (cases "exportDashboard net ?src (sourceDashboardId st) tr")
  with assms have "r = Inl e" by simp
  with e show ?thesis
    by (simp add: handleMigration_def catch_block_def Let_def)
qed

lemma handleMigration_completes:
  assumes "fst (exportDashboard net (new_OmniAPI (baseUrl (source cfg)) (token (source cfg)))
                  (sourceDashboardId st) tr) = Inr B"
    and "import_request_of (targetModelId st) B = Inr data"
    and "fst (importDashboard net (new_OmniAPI (baseUrl (target cfg)) (token (target cfg))) data
                (snd (exportDashboard net (new_OmniAPI (baseUrl (source cfg)) (token (source cfg)))
                        (sourceDashboardId st) tr))) = Inr R"
    and "dashboardId_of R = Inr newId"
  shows "fst (handleMigration net cfg st tr) =
           st\<lparr>status := ''Migration completed successfully! New dashboard ID: '' @ to_string newId,
              error := []\<rparr>"
proof -
  let ?src = "new_OmniAPI (baseUrl (source cfg)) (token (source cfg))"
  let ?tgt = "new_OmniAPI (baseUrl (target cfg)) (token (target cfg))"
  obtain r tr1 where e: "exportDashboard net ?src (sourceDashboardId st) tr = (r, tr1)"
    by (cases "exportDashboard net ?src (sourceDashboardId st) tr")
  with assms(1) have r: "r = Inr B" by simp
  obtain r2 tr2 where i: "importDashboard net ?tgt data tr1 = (r2, tr2)"
    by (cases "importDashboard net ?tgt data tr1")
  with assms(3) e have r2: "r2 = Inr R" by simp
  from e r i r2 assms(2,4) show ?thesis
    by (simp add: handleMigration_def Let_def)
qed

lemma import_request_of_not_null:
  assumes "B \<noteq> JNull" and "B \<noteq> JUndefined"
  shows "\<exists>data. import_request_of m B = Inr data"
  using assms by (cases B) (simp_all add: import_request_of_def)

text \<open>
  C4, as the code has it. Every migration run issues the export GET first, to the source,
  and after it either nothing or exactly one import POST, to the target; no other call is
  made. Whenever the export call returns a value \<open>B\<close> other than \<^verbatim>\<open>null\<close> (and other than
  \<^verbatim>\<open>undefined\<close>, which no JSON body yields), the calls are exactly the GET followed by the
  POST that carries the import request built from \<open>B\<close>. When the import call succeeds as
  well, returning a result whose \<^verbatim>\<open>dashboard.dashboardId\<close> is the string \<open>newId\<close>, the run
  ends with no error and the status
  \<^verbatim>\<open>Migration completed successfully! New dashboard ID: \<close> followed by \<open>newId\<close>.
\<close>

theorem migration_call_sequence:
  "(\<exists>g rest.
      snd (handleMigration net cfg st tr) = tr @ g # rest \<and>
      effective_method g = ''GET'' \<and>
      url g = baseUrl (source cfg) @ ''/api/unstable/documents/'' @ sourceDashboardId st @ ''/export'' \<and>
      (rest = [] \<or>
       (\<exists>p. rest = [p] \<and> effective_method p = ''POST'' \<and>
            url p = baseUrl (target cfg) @ ''/api/unstable/documents/import''))) \<and>
   (fst (exportDashboard net (new_OmniAPI (baseUrl (source cfg)) (token (source cfg)))
           (sourceDashboardId st) tr) = Inr B \<and>
    B \<noteq> JNull \<and> B \<noteq> JUndefined \<longrightarrow>
      (\<exists>g p data.
          snd (handleMigration net cfg st tr) = tr @ [g, p] \<and>
          effective_method g = ''GET'' \<and> effective_method p = ''POST'' \<and>
          import_request_of (targetModelId st) B = Inr data \<and>
          body (init p) = Some (JSON_stringify data) \<and>
          (\<forall>R D newId.
              fst (importDashboard net (new_OmniAPI (baseUrl (target cfg)) (token (target cfg)))
                     data (tr @ [g])) = Inr R \<and>
              get_prop R ''dashboard'' = Inr D \<and>
              get_prop D ''dashboardId'' = Inr (JStr newId) \<longrightarrow>
                status (fst (handleMigration net cfg st tr)) =
                  ''Migration completed successfully! New dashboard ID: '' @ newId \<and>
                error (fst (handleMigration net cfg st tr)) = [])))"
proof (intro conjI impI)
  let ?src = "new_OmniAPI (baseUrl (source cfg)) (token (source cfg))"
  let ?tgt = "new_OmniAPI (baseUrl (target cfg)) (token (target cfg))"
  let ?g = "fetch_args ?src (''/api/unstable/documents/'' @ sourceDashboardId st @ ''/export'') no_options"
  let ?p = "\<lambda>d. fetch_args ?tgt ''/api/unstable/documents/import''
                 \<lparr>method = Some ''POST'', headers = None, body = Some (JSON_stringify d)\<rparr>"
  have g: "effective_method ?g = ''GET''"
    "url ?g = baseUrl (source cfg) @ ''/api/unstable/documents/'' @ sourceDashboardId st @ ''/export''"
    using export_call_shape by blast+
  have p: "effective_method (?p d) = ''POST''"
    "url (?p d) = baseUrl (target cfg) @ ''/api/unstable/documents/import''"
    "body (init (?p d)) = Some (JSON_stringify d)" for d
    using import_call_shape by blast+
  from handleMigration_calls_shape [of net cfg st tr]
  consider "snd (handleMigration net cfg st tr) = tr @ [?g]"
    | d where "snd (handleMigration net cfg st tr) = tr @ [?g, ?p d]"
    by auto
  then show "\<exists>g rest.
      snd (handleMigration net cfg st tr) = tr @ g # rest \<and>
      effective_method g = ''GET'' \<and>
      url g = baseUrl (source cfg) @ ''/api/unstable/documents/'' @ sourceDashboardId st @ ''/export'' \<and>
      (rest = [] \<or>
       (\<exists>p. rest = [p] \<and> effective_method p = ''POST'' \<and>
            url p = baseUrl (target cfg) @ ''/api/unstable/documents/import''))"
  proof cases
    case 1
    with g show ?thesis by simp
  next
    case 2
    with g p [of d] show ?thesis by simp
  qed
  assume exported: "fst (exportDashboard net ?src (sourceDashboardId st) tr) = Inr B \<and>
    B \<noteq> JNull \<and> B \<noteq> JUndefined"
  then obtain data where data: "import_request_of (targetModelId st) B = Inr data"
    using import_request_of_not_null [of B "targetModelId st"] by blast
  from exported have e: "exportDashboard net ?src (sourceDashboardId st) tr = (Inr B, tr @ [?g])"
    using exportDashboard_calls [of net ?src "sourceDashboardId st" tr]
    by (simp add: prod_eq_iff)
  with data have calls: "snd (handleMigration net cfg st tr) = tr @ [?g, ?p data]"
    by (simp add: handleMigration_calls importDashboard_calls)
  have completed:
    "status (fst (handleMigration net cfg st tr)) =
       ''Migration completed successfully! New dashboard ID: '' @ newId \<and>
     error (fst (handleMigration net cfg st tr)) = []"
    if imported: "fst (importDashboard net ?tgt data (tr @ [?g])) = Inr R \<and>
        get_prop R ''dashboard'' = Inr D \<and> get_prop D ''dashboardId'' = Inr (JStr newId)"
    for R D newId
  proof -
    from imported have "dashboardId_of R = Inr (JStr newId)"
      by (simp add: dashboardId_of_def)
    with exported data e imported
    have "fst (handleMigration net cfg st tr) =
        st\<lparr>status := ''Migration completed successfully! New dashboard ID: '' @ to_string (JStr newId),
           error := []\<rparr>"
      by (intro handleMigration_completes [of net cfg st tr B data R]) simp_all
    then show ?thesis by simp
  qed
  show "\<exists>g p data.
          snd (handleMigration net cfg st tr) = tr @ [g, p] \<and>
          effective_method g = ''GET'' \<and> effective_method p = ''POST'' \<and>
          import_request_of (targetModelId st) B = Inr data \<and>
          body (init p) = Some (JSON_stringify data) \<and>
          (\<forall>R D newId.
              fst (importDashboard net ?tgt data (tr @ [g])) = Inr R \<and>
              get_prop R ''dashboard'' = Inr D \<and>
              get_prop D ''dashboardId'' = Inr (JStr newId) \<longrightarrow>
                status (fst (handleMigration net cfg st tr)) =
                  ''Migration completed successfully! New dashboard ID: '' @ newId \<and>
                error (fst (handleMigration net cfg st tr)) = [])"
  proof (rule exI [of _ ?g], rule exI [of _ "?p data"], rule exI [of _ data], intro conjI)
    show "snd (handleMigration net cfg st tr) = tr @ [?g, ?p data]" by (rule calls)
    show "effective_method ?g = ''GET''" by (rule g)
    show "effective_method (?p data) = ''POST''" by (rule p)
    show "import_request_of (targetModelId st) B = Inr data" by (rule data)
    show "body (init (?p data)) = Some (JSON_stringify data)" by (rule p)
    show "\<forall>R D newId.
              fst (importDashboard net ?tgt data (tr @ [?g])) = Inr R \<and>
              get_prop R ''dashboard'' = Inr D \<and>
              get_prop D ''dashboardId'' = Inr (JStr newId) \<longrightarrow>
                status (fst (handleMigration net cfg st tr)) =
                  ''Migration completed successfully! New dashboard ID: '' @ newId \<and>
                error (fst (handleMigration net cfg st tr)) = []"
      using completed by blast
  qed
qed

theorem migration_call_sequence_witness:
  "map effective_method
     (snd (handleMigration (net_serving bundle_v01 demo_result) demo_config demo_component [])) =
     [''GET'', ''POST''] \<and>
   status (fst (handleMigration (net_serving bundle_v01 demo_result) demo_config demo_component [])) =
     ''Migration completed successfully! New dashboard ID: new_456''"
proof -
  let ?N = "net_serving bundle_v01 demo_result"
  let ?src = "new_OmniAPI (baseUrl (source demo_config)) (token (source demo_config))"
  let ?tgt = "new_OmniAPI (baseUrl (target demo_config)) (token (target demo_config))"
  have "fst (exportDashboard ?N ?src (sourceDashboardId demo_component) []) = Inr bundle_v01 \<and>
        bundle_v01 \<noteq> JNull \<and> bundle_v01 \<noteq> JUndefined"
    by (simp add: net_serving_def bundle_v01_def
      OmniAPI_fetch_def global_fetch_def fetch_args_def spread_headers_def
      no_options_def new_OmniAPI_def exportDashboard_def importDashboard_def js_or_def)
  with migration_call_sequence [of ?N demo_config demo_component "[]" bundle_v01]
  obtain g p data
    where calls: "snd (handleMigration ?N demo_config demo_component []) = [] @ [g, p]"
      and methods: "effective_method g = ''GET''" "effective_method p = ''POST''"
      and completes: "\<forall>R D newId.
              fst (importDashboard ?N ?tgt data ([] @ [g])) = Inr R \<and>
              get_prop R ''dashboard'' = Inr D \<and>
              get_prop D ''dashboardId'' = Inr (JStr newId) \<longrightarrow>
                status (fst (handleMigration ?N demo_config demo_component [])) =
                  ''Migration completed successfully! New dashboard ID: '' @ newId \<and>
                error (fst (handleMigration ?N demo_config demo_component [])) = []"
    by blast
  have "fst (importDashboard ?N ?tgt data ([] @ [g])) = Inr demo_result"
    by (simp add: net_serving_def
      OmniAPI_fetch_def global_fetch_def fetch_args_def spread_headers_def
      no_options_def new_OmniAPI_def exportDashboard_def importDashboard_def js_or_def)
  moreover have "get_prop demo_result ''dashboard'' = Inr (JObj [(''dashboardId'', JStr ''new_456'')])"
    by (simp add: demo_result_def)
  moreover have "get_prop (JObj [(''dashboardId'', JStr ''new_456'')]) ''dashboardId'' =
                   Inr (JStr ''new_456'')"
    by simp
  ultimately have "status (fst (handleMigration ?N demo_config demo_component [])) =
      ''Migration completed successfully! New dashboard ID: '' @ ''new_456''"
    using completes by blast
  with calls methods show ?thesis by simp
qed

text \<open>
  C4 as stated fails: when the network is down the run issues the GET and no POST, so not
  every run issues exactly one import POST.
\<close>

theorem no_post_after_failed_get_counterexample:
  "map effective_method (snd (handleMigration net_down demo_config demo_component [])) = [''GET''] \<and>
   status (fst (handleMigration net_down demo_config demo_component [])) = ''Migration failed''"
  by (simp add: handleMigration_def catch_block_def effective_method_def Let_def net_down_def
      demo_config_def demo_component_def initial_component_def
      OmniAPI_fetch_def global_fetch_def fetch_args_def spread_headers_def
      no_options_def new_OmniAPI_def exportDashboard_def importDashboard_def js_or_def)

text \<open>
  C5. When the export call of a migration run throws an error \<open>e\<close> (an instance of
  \<^verbatim>\<open>Error\<close>), the run issues the export GET and nothing else, so no POST, and ends with
  the status \<^verbatim>\<open>Migration failed\<close> and the error cell holding exactly the message of \<open>e\<close>;
  the other cells are unchanged.
\<close>

theorem failed_export_stops_migration:
  assumes "fst (exportDashboard net (new_OmniAPI (baseUrl (source cfg)) (token (source cfg)))
                  (sourceDashboardId st) tr) = Inl e"
    and "instanceof_Error e"
  shows "fst (handleMigration net cfg st tr) = st\<lparr>status := ''Migration failed'', error := message e\<rparr> \<and>
         (\<exists>g. snd (handleMigration net cfg st tr) = tr @ [g] \<and> effective_method g = ''GET'' \<and>
               url g = baseUrl (source cfg) @ ''/api/unstable/documents/'' @ sourceDashboardId st @ ''/export'')"
proof
  show "fst (handleMigration net cfg st tr) = st\<lparr>status := ''Migration failed'', error := message e\<rparr>"
    using assms by (simp add: handleMigration_export_throws)
  have "snd (handleMigration net cfg st tr) =
          tr @ [fetch_args (new_OmniAPI (baseUrl (source cfg)) (token (source cfg)))
                  (''/api/unstable/documents/'' @ sourceDashboardId st @ ''/export'') no_options]"
    using assms(1) by (simp add: handleMigration_export_throws exportDashboard_calls)
  then show "\<exists>g. snd (handleMigration net cfg st tr) = tr @ [g] \<and> effective_method g = ''GET'' \<and>
      url g = baseUrl (source cfg) @ ''/api/unstable/documents/'' @ sourceDashboardId st @ ''/export''"
    using export_call_shape by blast
qed

theorem failed_export_stops_migration_witness:
  "fst (handleMigration (net_answering not_found_with_detail) demo_config demo_component []) =
     demo_component\<lparr>status := ''Migration failed'', error := ''Omni API Error: Dashboard not found''\<rparr> \<and>
   map effective_method
     (snd (handleMigration (net_answering not_found_with_detail) demo_config demo_component [])) = [''GET'']"
proof -
  let ?e = "Error ''Omni API Error: Dashboard not found''"
  have "fst (exportDashboard (net_answering not_found_with_detail)
               (new_OmniAPI (baseUrl (source demo_config)) (token (source demo_config)))
               (sourceDashboardId demo_component) []) = Inl ?e"
    by (simp add: net_answering_def not_found_with_detail_def
      OmniAPI_fetch_def global_fetch_def fetch_args_def spread_headers_def
      no_options_def new_OmniAPI_def exportDashboard_def importDashboard_def js_or_def)
  moreover have "instanceof_Error ?e"
    by simp
  ultimately show ?thesis
    using failed_export_stops_migration
            [of "net_answering not_found_with_detail" demo_config demo_component "[]" ?e]
    by auto
qed

section \<open>The form: starting a migration\<close>

lemma handleMigration_issues_export:
  "\<exists>g rest. snd (handleMigration net cfg st tr) = tr @ g # rest \<and> effective_method g = ''GET'' \<and>
     url g = baseUrl (source cfg) @ ''/api/unstable/documents/'' @ sourceDashboardId st @ ''/export''"
proof -
  let ?g = "fetch_args (new_OmniAPI (baseUrl (source cfg)) (token (source cfg)))
              (''/api/unstable/documents/'' @ sourceDashboardId st @ ''/export'') no_options"
  from handleMigration_calls_shape [of net cfg st tr]
  obtain rest where "snd (handleMigration net cfg st tr) = tr @ ?g # rest"
    by auto
  then show ?thesis
    using export_call_shape by blast
qed

text \<open>
  C9, as the code has it. A click on the start button does nothing, and issues no call,
  when the source dashboard identifier or the target model identifier is empty. When the
  form is shown and both identifiers are non-empty the click starts the migration and the
  export GET is issued, whatever the shape of the target model identifier: it is not
  tested for being a UUID.
\<close>

theorem start_requires_nonempty_identifiers:
  "(sourceDashboardId st = [] \<or> targetModelId st = [] \<longrightarrow>
      ui_step net cfg ClickStart (st, tr) = (st, tr)) \<and>
   (configError st = [] \<and> sourceDashboardId st \<noteq> [] \<and> targetModelId st \<noteq> [] \<longrightarrow>
      (\<exists>g rest. snd (ui_step net cfg ClickStart (st, tr)) = tr @ g # rest \<and>
                 effective_method g = ''GET'' \<and>
                 url g = baseUrl (source cfg) @ ''/api/unstable/documents/'' @
                         sourceDashboardId st @ ''/export''))"
proof (intro conjI impI)
  assume "sourceDashboardId st = [] \<or> targetModelId st = []"
  then show "ui_step net cfg ClickStart (st, tr) = (st, tr)"
    by (simp add: button_disabled_def)
next
  assume "configError st = [] \<and> sourceDashboardId st \<noteq> [] \<and> targetModelId st \<noteq> []"
  then have "ui_step net cfg ClickStart (st, tr) = handleMigration net cfg st tr"
    by (simp add: button_disabled_def renders_form_def)
  then show "\<exists>g rest. snd (ui_step net cfg ClickStart (st, tr)) = tr @ g # rest \<and>
      effective_method g = ''GET'' \<and>
      url g = baseUrl (source cfg) @ ''/api/unstable/documents/'' @ sourceDashboardId st @ ''/export''"
    using handleMigration_issues_export [of net cfg st tr] by simp
qed

theorem start_requires_nonempty_identifiers_witness:
  "ui_step net_down demo_config ClickStart (initial_component, []) = (initial_component, []) \<and>
   (\<exists>g rest. snd (ui_step net_down demo_config ClickStart (component_non_uuid, [])) = [] @ g # rest \<and>
              effective_method g = ''GET'' \<and>
              url g = ''https://src.example/api/unstable/documents/dash_123/export'')"
proof -
  have "sourceDashboardId initial_component = [] \<or> targetModelId initial_component = []"
    by (simp add: initial_component_def)
  with start_requires_nonempty_identifiers [of initial_component net_down demo_config "[]"]
  have 1: "ui_step net_down demo_config ClickStart (initial_component, []) = (initial_component, [])"
    by blast
  have "configError component_non_uuid = [] \<and> sourceDashboardId component_non_uuid \<noteq> [] \<and>
        targetModelId component_non_uuid \<noteq> []"
    by (simp add: component_non_uuid_def initial_component_def)
  with start_requires_nonempty_identifiers [of component_non_uuid net_down demo_config "[]"]
  have "\<exists>g rest. snd (ui_step net_down demo_config ClickStart (component_non_uuid, [])) = [] @ g # rest \<and>
          effective_method g = ''GET'' \<and>
          url g = baseUrl (source demo_config) @ ''/api/unstable/documents/'' @
                  sourceDashboardId component_non_uuid @ ''/export''"
    by blast
  then have 2: "\<exists>g rest. snd (ui_step net_down demo_config ClickStart (component_non_uuid, [])) = [] @ g # rest \<and>
          effective_method g = ''GET'' \<and>
          url g = ''https://src.example/api/unstable/documents/dash_123/export''"
    by (simp add: demo_config_def component_non_uuid_def initial_component_def)
  from 1 2 show ?thesis ..
qed

text \<open>
  C9 as stated fails: with the target model identifier \<^verbatim>\<open>abc\<close>, which is not UUID-shaped,
  typing both identifiers and clicking the button runs the whole migration, GET and POST.
\<close>

theorem non_uuid_target_starts_migration_counterexample:
  "\<not> uuid_shaped ''abc'' \<and>
   fst (ui_run (net_serving bundle_v01 demo_result) demo_config
          [ChangeSource ''dash_123'', ChangeTarget ''abc''] (mounted demo_config, [])) =
     component_non_uuid \<and>
   map effective_method
     (snd (ui_run (net_serving bundle_v01 demo_result) demo_config
             [ChangeSource ''dash_123'', ChangeTarget ''abc'', ClickStart] (mounted demo_config, []))) =
     [''GET'', ''POST'']"
  by (simp add: uuid_shaped_def mounted_def mount_effect_def validateOmniConfig_def
      missingVars_def push_if_def renders_form_def button_disabled_def handleMigration_def
      import_request_of_def dashboardId_of_def catch_block_def effective_method_def Let_def
      net_serving_def bundle_v01_def demo_result_def demo_config_def component_non_uuid_def
      initial_component_def
      OmniAPI_fetch_def global_fetch_def fetch_args_def spread_headers_def
      no_options_def new_OmniAPI_def exportDashboard_def importDashboard_def js_or_def)

section \<open>Configuration errors\<close>

lemma sublist_prepend:
  assumes "sublist xs ys"
  shows "sublist xs (ps @ ys)"
proof -
  from assms obtain as bs where "ys = as @ xs @ bs"
    unfolding sublist_def by blast
  then have "ps @ ys = (ps @ as) @ xs @ bs"
    by simp
  then show ?thesis
    unfolding sublist_def by blast
qed

lemma sublist_join:
  "x \<in> set xs \<Longrightarrow> sublist x (join sep xs)"
proof (induction sep xs rule: join.induct)
  case (1 sep)
  then show ?case by simp
next
  case (2 sep y)
  then show ?case by simp
next
  case (3 sep y z zs)
  show ?case
  proof (cases "x = y")
    case True
    then show ?thesis by simp
  next
    case False
    with 3 have "sublist x (join sep (z # zs))" by simp
    then have "sublist x ((y @ sep) @ join sep (z # zs))"
      by (rule sublist_prepend)
    then show ?thesis by simp
  qed
qed

lemma ui_step_config_error:
  "configError st \<noteq> [] \<Longrightarrow> ui_step net cfg ev (st, tr) = (st, tr)"
  by (cases ev) (simp_all add: renders_form_def)

lemma ui_run_config_error:
  "configError st \<noteq> [] \<Longrightarrow> ui_run net cfg evs (st, tr) = (st, tr)"
  by (induction evs) (simp_all add: ui_step_config_error)

text \<open>
  C10. When any of the four settings is empty, \<open>validateOmniConfig\<close> throws an error whose
  message contains the name of the environment variable of every empty setting. The
  effect run on mounting stores that message, which is not empty, in \<open>configError\<close>, before
  any user action; and from then on no sequence of user actions changes the component or
  issues a call: the form with the start button is never shown.
\<close>

theorem missing_config_blocks_migration:
  assumes "baseUrl (source cfg) = [] \<or> token (source cfg) = [] \<or>
           baseUrl (target cfg) = [] \<or> token (target cfg) = []"
  shows "\<exists>msg. validateOmniConfig cfg = Inl (Error msg) \<and>
           (baseUrl (source cfg) = [] \<longrightarrow> sublist ''NEXT_PUBLIC_SOURCE_OMNI_URL'' msg) \<and>
           (token (source cfg) = [] \<longrightarrow> sublist ''SOURCE_OMNI_API_TOKEN'' msg) \<and>
           (baseUrl (target cfg) = [] \<longrightarrow> sublist ''NEXT_PUBLIC_TARGET_OMNI_URL'' msg) \<and>
           (token (target cfg) = [] \<longrightarrow> sublist ''TARGET_OMNI_API_TOKEN'' msg) \<and>
           msg \<noteq> [] \<and>
           configError (mounted cfg) = msg \<and>
           (\<forall>evs. ui_run net cfg evs (mounted cfg, []) = (mounted cfg, []))"
proof -
  let ?pre = "''Missing required environment variables: ''"
  let ?msg = "?pre @ join '', '' (missingVars cfg)"
  have nonempty: "missingVars cfg \<noteq> []"
    using assms by (auto simp: missingVars_def push_if_def)
  then have thrown: "validateOmniConfig cfg = Inl (Error ?msg)"
    by (simp add: validateOmniConfig_def)
  have named: "sublist v ?msg" if "v \<in> set (missingVars cfg)" for v
    using sublist_join [OF that, of "'', ''"] by (rule sublist_prepend)
  have a: "baseUrl (source cfg) = [] \<longrightarrow> sublist ''NEXT_PUBLIC_SOURCE_OMNI_URL'' ?msg"
    by (intro impI named) (simp add: missingVars_def push_if_def Let_def)
  have b: "token (source cfg) = [] \<longrightarrow> sublist ''SOURCE_OMNI_API_TOKEN'' ?msg"
    by (intro impI named) (simp add: missingVars_def push_if_def Let_def)
  have c: "baseUrl (target cfg) = [] \<longrightarrow> sublist ''NEXT_PUBLIC_TARGET_OMNI_URL'' ?msg"
    by (intro impI named) (simp add: missingVars_def push_if_def Let_def)
  have d: "token (target cfg) = [] \<longrightarrow> sublist ''TARGET_OMNI_API_TOKEN'' ?msg"
    by (intro impI named) (simp add: missingVars_def push_if_def Let_def)
  have ne: "?msg \<noteq> []"
    by simp
  have stored: "configError (mounted cfg) = ?msg"
    by (simp add: mounted_def mount_effect_def thrown)
  with ne have "ui_run net cfg evs (mounted cfg, []) = (mounted cfg, [])" for evs
    by (intro ui_run_config_error) simp
  with thrown a b c d ne stored show ?thesis
    by blast
qed

theorem missing_config_blocks_migration_witness:
  "validateOmniConfig empty_config =
     Inl (Error (''Missing required environment variables: NEXT_PUBLIC_SOURCE_OMNI_URL, '' @
                 ''SOURCE_OMNI_API_TOKEN, NEXT_PUBLIC_TARGET_OMNI_URL, TARGET_OMNI_API_TOKEN'')) \<and>
   snd (ui_run (net_serving bundle_v01 demo_result) empty_config
          [ChangeSource ''dash_123'', ChangeTarget ''11111111-1111-1111-1111-111111111111'', ClickStart]
          (mounted empty_config, [])) = []"
proof -
  have "baseUrl (source empty_config) = [] \<or> token (source empty_config) = [] \<or>
        baseUrl (target empty_config) = [] \<or> token (target empty_config) = []"
    by (simp add: empty_config_def)
  from missing_config_blocks_migration [OF this, of "net_serving bundle_v01 demo_result"]
  have "\<forall>evs. ui_run (net_serving bundle_v01 demo_result) empty_config evs (mounted empty_config, []) =
          (mounted empty_config, [])"
    by blast
  then have calls: "snd (ui_run (net_serving bundle_v01 demo_result) empty_config
          [ChangeSource ''dash_123'', ChangeTarget ''11111111-1111-1111-1111-111111111111'', ClickStart]
          (mounted empty_config, [])) = []"
    by (simp del: ui_run.simps)
  have "validateOmniConfig empty_config =
     Inl (Error (''Missing required environment variables: NEXT_PUBLIC_SOURCE_OMNI_URL, '' @
                 ''SOURCE_OMNI_API_TOKEN, NEXT_PUBLIC_TARGET_OMNI_URL, TARGET_OMNI_API_TOKEN''))"
    by (simp add: validateOmniConfig_def missingVars_def push_if_def empty_config_def)
  then show ?thesis
    using calls ..
qed

end
